theory Spec2Isabelle
  imports Main
begin

section \<open>The icon container packer of \<open>scripts/make_icns.py\<close>\<close>

text \<open>
  The script reads up to eleven image files from a directory, wraps each one in a tagged,
  length-prefixed block and writes the blocks under an \<open>icns\<close> header to the output
  file. Python's \<open>bytes\<close> are modelled as lists of \<open>char\<close> (a \<open>char\<close> of HOL is an
  8-bit value), so that the literal \<open>b'icp4'\<close> is \<open>''icp4''\<close>; lengths and sizes are
  \<open>nat\<close>, Python's integers being unbounded and never negative here.
\<close>

type_synonym bytes = "char list"

subsection \<open>The filesystem and the interpreter's errors\<close>

text \<open>
  A filesystem maps a path to what is stored there: a regular file with its content or a
  directory. The namespace is flat (a file can be created at any path that is not a
  directory); permissions, links and devices are not modelled.
\<close>

datatype node = File bytes | Dir

type_synonym filesystem = "string \<rightharpoonup> node"

datatype exn =
    StructError nat
  | IsADirectoryError string
  | FileNotFoundError string

datatype outcome = Returned | Exit nat | Raised exn

text \<open>
  What a run leaves behind: the states the filesystem is certain to have passed through
  (the first is the state at entry, the last the state at exit), the lines printed, and how
  the run ended.
\<close>

record result =
  fs_trace :: "filesystem list"
  stdout :: "string list"
  outcome :: outcome

definition final_fs :: "result \<Rightarrow> filesystem" where
  "final_fs r = last (fs_trace r)"

subsection \<open>Library functions the script calls\<close>

text \<open>\<open>os.path.exists\<close>: true of files and of directories.\<close>

definition path_exists :: "filesystem \<Rightarrow> string \<Rightarrow> bool" where
  "path_exists fs path \<longleftrightarrow> fs path \<noteq> None"

text \<open>
  \<open>os.path.join\<close> of two components (\<open>posixpath\<close>): an absolute second component
  replaces the first; otherwise a separator is put between them unless the first is empty
  or already ends in one.
\<close>

definition path_join :: "string \<Rightarrow> string \<Rightarrow> string" where
  "path_join a b =
     (if b \<noteq> [] \<and> hd b = CHR ''/'' then b
      else if a = [] \<or> last a = CHR ''/'' then a @ b
      else a @ ''/'' @ b)"

text \<open>
  \<open>struct.pack('>I', n)\<close>: the four bytes of \<open>n\<close>, most significant first;
  \<open>struct.error\<close> when \<open>n\<close> does not fit 32 bits.
\<close>

definition pack_I :: "nat \<Rightarrow> exn + bytes" where
  "pack_I n =
     (if n \<le> 4294967295
      then Inr [char_of (n div 16777216), char_of (n div 65536), char_of (n div 256), char_of n]
      else Inl (StructError n))"

text \<open>\<open>open(path, 'rb')\<close> followed by \<open>f.read()\<close>.\<close>

definition read_file :: "filesystem \<Rightarrow> string \<Rightarrow> exn + bytes" where
  "read_file fs path =
     (case fs path of
        None \<Rightarrow> Inl (FileNotFoundError path)
      | Some Dir \<Rightarrow> Inl (IsADirectoryError path)
      | Some (File content) \<Rightarrow> Inr content)"

text \<open>
  \<open>open(path, 'wb')\<close>: creates the file, or truncates the one that is there, at the
  call. The file object that it returns is buffered: the bytes it is given are in the file
  once the file object is closed, and how many of them are there before is not determined.
\<close>

definition open_wb :: "filesystem \<Rightarrow> string \<Rightarrow> exn + filesystem" where
  "open_wb fs path =
     (case fs path of
        Some Dir \<Rightarrow> Inl (IsADirectoryError path)
      | _ \<Rightarrow> Inr (fs(path \<mapsto> File [])))"

text \<open>\<open>f.write(b)\<close>: \<open>b\<close> follows what the file object was given so far.\<close>

definition f_write :: "bytes \<Rightarrow> bytes \<Rightarrow> bytes" where
  "f_write written b = written @ b"

text \<open>
  The close of a file object from \<open>open_wb\<close>, at the end of the \<open>with\<close> statement:
  the file holds all that the file object was given.
\<close>

definition close_wb :: "filesystem \<Rightarrow> string \<Rightarrow> bytes \<Rightarrow> filesystem" where
  "close_wb fs path written = fs(path \<mapsto> File written)"

subsection \<open>\<open>create_icns\<close>\<close>

text \<open>The dictionary \<open>types\<close>, in insertion order, which is the order of iteration.\<close>

definition types :: "(bytes \<times> string) list" where
  "types =
     [(''icp4'', ''icon_16x16.png''),
      (''icp5'', ''icon_32x32.png''),
      (''icp6'', ''icon_64x64.png''),
      (''ic07'', ''icon_128x128.png''),
      (''ic08'', ''icon_256x256.png''),
      (''ic09'', ''icon_512x512.png''),
      (''ic10'', ''icon_1024x1024.png''),
      (''ic11'', ''icon_16x16@2x.png''),
      (''ic12'', ''icon_32x32@2x.png''),
      (''ic13'', ''icon_128x128@2x.png''),
      (''ic14'', ''icon_256x256@2x.png'')]"

text \<open>
  Lines 24 to 29: the path tried for a tag. When the canonical path does not exist, the
  two \<open>if\<close> statements for \<open>icp4\<close> and \<open>icp5\<close> assign the path anew.
\<close>

definition candidate_path :: "filesystem \<Rightarrow> string \<Rightarrow> bytes \<Rightarrow> string \<Rightarrow> string" where
  "candidate_path fs iconset_dir tag filename =
     (let path = path_join iconset_dir filename in
      if \<not> path_exists fs path then
        (let path1 = (if tag = ''icp4'' then path_join iconset_dir ''icon_16x16.png'' else path);
             path2 = (if tag = ''icp5'' then path_join iconset_dir ''icon_32x32.png'' else path1)
         in path2)
      else path)"

text \<open>Lines 35 and 36: one block, the tag, the size with its own eight bytes, the data.\<close>

definition encode_block :: "bytes \<Rightarrow> bytes \<Rightarrow> exn + bytes" where
  "encode_block tag img_data =
     (let block_size = length img_data + 8 in
      case pack_I block_size of
        Inl e \<Rightarrow> Inl e
      | Inr size_field \<Rightarrow> Inr (tag @ size_field @ img_data))"

definition warning :: "string \<Rightarrow> bytes \<Rightarrow> string" where
  "warning filename tag = ''Warning: '' @ filename @ '' not found, skipping '' @ tag"

text \<open>
  Lines 23 to 38, the loop over the table, with \<open>data_blocks\<close> and the printed lines as
  its state. An exception ends the loop and keeps what was printed before it.
\<close>

fun collect_blocks ::
  "filesystem \<Rightarrow> string \<Rightarrow> (bytes \<times> string) list \<Rightarrow> bytes list \<Rightarrow> string list
     \<Rightarrow> (exn + bytes list) \<times> string list" where
  "collect_blocks fs iconset_dir [] data_blocks out = (Inr data_blocks, out)"
| "collect_blocks fs iconset_dir ((tag, filename) # rest) data_blocks out =
     (let path = candidate_path fs iconset_dir tag filename in
      if path_exists fs path then
        (case read_file fs path of
           Inl e \<Rightarrow> (Inl e, out)
         | Inr img_data \<Rightarrow>
             (case encode_block tag img_data of
                Inl e \<Rightarrow> (Inl e, out)
              | Inr block \<Rightarrow> collect_blocks fs iconset_dir rest (data_blocks @ [block]) out))
      else collect_blocks fs iconset_dir rest data_blocks (out @ [warning filename tag]))"

text \<open>Lines 48 and 49, the loop that writes the blocks to the file object.\<close>

fun write_blocks :: "bytes \<Rightarrow> bytes list \<Rightarrow> bytes" where
  "write_blocks written [] = written"
| "write_blocks written (block # rest) = write_blocks (f_write written block) rest"

text \<open>
  Lines 44 to 49: the output is opened (and with that truncated) before the header is
  packed; the header and then each block are written to the file object, which is closed
  when the \<open>with\<close> statement is left, also when \<open>struct.pack\<close> raises in it. The
  states of a run that gets as far are the state at entry, the state with the output just
  opened and the state with the output closed.
\<close>

definition write_container ::
  "filesystem \<Rightarrow> string \<Rightarrow> bytes list \<Rightarrow> string list \<Rightarrow> result" where
  "write_container fs output_file data_blocks out =
     (let total_size = sum_list (map length data_blocks) + 8 in
      case open_wb fs output_file of
        Inl e \<Rightarrow> \<lparr>fs_trace = [fs], stdout = out, outcome = Raised e\<rparr>
      | Inr fs1 \<Rightarrow>
          (case pack_I total_size of
             Inl e \<Rightarrow> \<lparr>fs_trace = [fs, fs1], stdout = out, outcome = Raised e\<rparr>
           | Inr size_field \<Rightarrow>
               (let written = write_blocks (f_write [] (''icns'' @ size_field)) data_blocks in
                \<lparr>fs_trace = [fs, fs1, close_wb fs1 output_file written],
                 stdout = out @ [''Successfully created '' @ output_file],
                 outcome = Returned\<rparr>)))"

definition create_icns :: "filesystem \<Rightarrow> string \<Rightarrow> string \<Rightarrow> result" where
  "create_icns fs iconset_dir output_file =
     (case collect_blocks fs iconset_dir types [] [] of
        (Inl e, out) \<Rightarrow> \<lparr>fs_trace = [fs], stdout = out, outcome = Raised e\<rparr>
      | (Inr data_blocks, out) \<Rightarrow>
          if data_blocks = []
          then \<lparr>fs_trace = [fs], stdout = out @ [''Error: No icons found to pack!''],
                outcome = Exit 1\<rparr>
          else write_container fs output_file data_blocks out)"

subsection \<open>The resolver without its fallback statements\<close>

text \<open>
  The loop of \<open>create_icns\<close> with lines 26 to 29 taken out: the only path tried for a
  tag is its canonical one. It is the resolver that \<open>create_icns\<close> is compared with.
\<close>

fun collect_blocks_no_fallback ::
  "filesystem \<Rightarrow> string \<Rightarrow> (bytes \<times> string) list \<Rightarrow> bytes list \<Rightarrow> string list
     \<Rightarrow> (exn + bytes list) \<times> string list" where
  "collect_blocks_no_fallback fs iconset_dir [] data_blocks out = (Inr data_blocks, out)"
| "collect_blocks_no_fallback fs iconset_dir ((tag, filename) # rest) data_blocks out =
     (let path = path_join iconset_dir filename in
      if path_exists fs path then
        (case read_file fs path of
           Inl e \<Rightarrow> (Inl e, out)
         | Inr img_data \<Rightarrow>
             (case encode_block tag img_data of
                Inl e \<Rightarrow> (Inl e, out)
              | Inr block \<Rightarrow>
                  collect_blocks_no_fallback fs iconset_dir rest (data_blocks @ [block]) out))
      else collect_blocks_no_fallback fs iconset_dir rest data_blocks
             (out @ [warning filename tag]))"

definition create_icns_no_fallback :: "filesystem \<Rightarrow> string \<Rightarrow> string \<Rightarrow> result" where
  "create_icns_no_fallback fs iconset_dir output_file =
     (case collect_blocks_no_fallback fs iconset_dir types [] [] of
        (Inl e, out) \<Rightarrow> \<lparr>fs_trace = [fs], stdout = out, outcome = Raised e\<rparr>
      | (Inr data_blocks, out) \<Rightarrow>
          if data_blocks = []
          then \<lparr>fs_trace = [fs], stdout = out @ [''Error: No icons found to pack!''],
                outcome = Exit 1\<rparr>
          else write_container fs output_file data_blocks out)"

subsection \<open>Entries, and packing a list of entries\<close>

text \<open>
  The entries of a directory: for each row of the table, in order, the tag and the content
  of the file at the path tried for it, where that is a regular file.
\<close>

fun resolved_entries ::
  "filesystem \<Rightarrow> string \<Rightarrow> (bytes \<times> string) list \<Rightarrow> (bytes \<times> bytes) list" where
  "resolved_entries fs iconset_dir [] = []"
| "resolved_entries fs iconset_dir ((tag, filename) # rest) =
     (case fs (candidate_path fs iconset_dir tag filename) of
        Some (File img_data) \<Rightarrow> (tag, img_data) # resolved_entries fs iconset_dir rest
      | _ \<Rightarrow> resolved_entries fs iconset_dir rest)"

text \<open>
  What \<open>create_icns\<close> does with the data once it is read, as a function of the list of
  (tag, data) pairs: lines 35 and 36 for each pair, the exit of lines 40 to 42 when there
  is none, and the bytes that lines 45 to 49 write.
\<close>

fun encode_blocks :: "(bytes \<times> bytes) list \<Rightarrow> exn + bytes list" where
  "encode_blocks [] = Inr []"
| "encode_blocks ((tag, img_data) # rest) =
     (case encode_block tag img_data of
        Inl e \<Rightarrow> Inl e
      | Inr block \<Rightarrow>
          (case encode_blocks rest of
             Inl e \<Rightarrow> Inl e
           | Inr blocks \<Rightarrow> Inr (block # blocks)))"



subsection \<open>Reading a container\<close>

text \<open>The value of a big-endian byte string.\<close>

definition be_value :: "bytes \<Rightarrow> nat" where
  "be_value bs = foldl (\<lambda>n b. n * 256 + of_char b) 0 bs"

text \<open>The tag, the length field and the payload of a block.\<close>

definition block_tag :: "bytes \<Rightarrow> bytes" where
  "block_tag block = take 4 block"

definition block_length :: "bytes \<Rightarrow> nat" where
  "block_length block = be_value (take 4 (drop 4 block))"

definition block_payload :: "bytes \<Rightarrow> bytes" where
  "block_payload block = drop 8 block"

text \<open>The \<open>total_length\<close> field of a container.\<close>

definition total_length :: "bytes \<Rightarrow> nat" where
  "total_length content = be_value (take 4 (drop 4 content))"




subsection \<open>Directories used as examples\<close>

text \<open>A directory \<open>d\<close> that holds only \<open>icon_16x16.png\<close>, ten bytes long.\<close>

definition fs_one :: filesystem where
  "fs_one = [''d/icon_16x16.png'' \<mapsto> File ''0123456789'']"

text \<open>No icon at all, and an output file left by an earlier run.\<close>

definition fs_no_icons :: filesystem where
  "fs_no_icons = [''out.icns'' \<mapsto> File ''previous'']"

text \<open>Two icons, the later one of the table stored first.\<close>

definition fs_two :: filesystem where
  "fs_two = [''d/icon_32x32@2x.png'' \<mapsto> File ''ab'', ''d/icon_16x16.png'' \<mapsto> File ''xyz'']"

text \<open>A single candidate file, and that one empty.\<close>

definition fs_zero :: filesystem where
  "fs_zero = [''d/icon_32x32.png'' \<mapsto> File []]"

text \<open>One icon, and an output file left by an earlier run.\<close>

definition fs_prev :: filesystem where
  "fs_prev = [''d/icon_16x16.png'' \<mapsto> File ''0123456789'', ''out.icns'' \<mapsto> File ''previous'']"


text \<open>
  One icon of 4294967280 bytes, whose block fits the size field while the container with
  its header does not, and an output file left by an earlier run.
\<close>

definition fs_prev_huge :: filesystem where
  "fs_prev_huge = [''d/icon_16x16.png'' \<mapsto> File (replicate 4294967280 (CHR ''0'')),
     ''out.icns'' \<mapsto> File ''previous'']"

subsection \<open>Replacing a file atomically\<close>

text \<open>
  A run never leaves the file at a path partially overwritten when, in every state the
  filesystem passes through, the path holds what it held at entry or, in a run that
  returned, what it holds at exit.
\<close>

definition never_partial :: "result \<Rightarrow> string \<Rightarrow> bool" where
  "never_partial r path \<longleftrightarrow>
     list_all (\<lambda>s. s path = hd (fs_trace r) path \<or>
                 (outcome r = Returned \<and> s path = last (fs_trace r) path))
       (fs_trace r)"


section \<open>Lemmas\<close>

subsection \<open>Packing and reading a 32-bit size\<close>

lemma be_value4:
  "be_value [c3, c2, c1, c0] =
     ((of_char c3 * 256 + of_char c2) * 256 + of_char c1) * 256 + of_char c0"
  by (simp add: be_value_def)

lemma be32_arith:
  fixes n :: nat
  assumes "n \<le> 4294967295"
  shows "((n div 16777216 mod 256 * 256 + n div 65536 mod 256) * 256 + n div 256 mod 256) * 256
           + n mod 256 = n"
proof -
  define a where "a = n div 256"
  define b where "b = a div 256"
  define c where "c = b div 256"
  have b: "n div 65536 = b"
    unfolding b_def a_def by (simp add: div_mult2_eq [symmetric])
  have c: "n div 16777216 = c"
    unfolding c_def b_def a_def by (simp add: div_mult2_eq [symmetric])
  have "c < 256"
    using assms unfolding c [symmetric] by (simp add: less_mult_imp_div_less)
  then have c_mod: "c mod 256 = c"
    by simp
  have n: "n = a * 256 + n mod 256"
    unfolding a_def by simp
  have a: "a = b * 256 + a mod 256"
    unfolding b_def by simp
  have b': "b = c * 256 + b mod 256"
    unfolding c_def by simp
  have "((c * 256 + b mod 256) * 256 + a mod 256) * 256 + n mod 256 = n"
    using n a b' by simp
  then show ?thesis
    unfolding b c c_mod a_def [symmetric] .
qed

lemma be_value_pack_I: "pack_I n = Inr s \<Longrightarrow> be_value s = n"
  by (auto simp only: pack_I_def be_value4 of_char_of be32_arith split: if_splits)

lemma length_pack_I: "pack_I n = Inr s \<Longrightarrow> length s = 4"
  by (auto simp: pack_I_def split: if_splits)

lemma char_of_eq_iff: "char_of (n::nat) = c \<longleftrightarrow> of_char c = n mod 256"
  by (metis of_char_of char_of_char)

subsection \<open>One block\<close>

lemma encode_block_Inr:
  assumes "encode_block tag img_data = Inr block"
  obtains size_field where "pack_I (length img_data + 8) = Inr size_field"
    and "block = tag @ size_field @ img_data"
  using assms by (auto simp: encode_block_def split: sum.splits)


lemma encode_block_fields:
  assumes "encode_block tag img_data = Inr block" and "length tag = 4"
  shows "block_tag block = tag" and "block_payload block = img_data"
    and "block_length block = length img_data + 8" and "length block = length img_data + 8"
proof -
  from assms(1) obtain size_field
    where p: "pack_I (length img_data + 8) = Inr size_field"
      and b: "block = tag @ size_field @ img_data"
    by (rule encode_block_Inr)
  have l: "length size_field = 4"
    using p by (rule length_pack_I)
  show "block_tag block = tag"
    using assms(2) by (simp add: block_tag_def b)
  show "block_payload block = img_data"
    using assms(2) l by (simp add: block_payload_def b)
  show "block_length block = length img_data + 8"
    using assms(2) l be_value_pack_I [OF p] by (simp add: block_length_def b)
  show "length block = length img_data + 8"
    using assms(2) l by (simp add: b)
qed

subsection \<open>The table\<close>

lemma types_tags: "map fst types = [''icp4'', ''icp5'', ''icp6'', ''ic07'', ''ic08'', ''ic09'',
    ''ic10'', ''ic11'', ''ic12'', ''ic13'', ''ic14'']"
  by (simp add: types_def)

lemma types_tag_length: "(tag, filename) \<in> set types \<Longrightarrow> length tag = 4"
  by (auto simp: types_def)

lemma distinct_types_tags: "distinct (map fst types)"
  by (simp add: types_def)

lemma candidate_path_types:
  "(tag, filename) \<in> set types \<Longrightarrow> candidate_path fs iconset_dir tag filename = path_join iconset_dir filename"
  by (auto simp: types_def candidate_path_def Let_def)

subsection \<open>The loop over the table\<close>

text \<open>
  A loop that ends without an exception has appended, to the blocks it started with, the
  encodings of the entries of the directory, and has met no directory among the paths it
  tried.
\<close>

lemma collect_blocks_Inr:
  "collect_blocks fs iconset_dir tbl data_blocks out = (Inr bs, out') \<Longrightarrow>
   \<exists>new. encode_blocks (resolved_entries fs iconset_dir tbl) = Inr new \<and> bs = data_blocks @ new"
proof (induction tbl arbitrary: data_blocks out)
  case Nil
  then show ?case by simp
next
  case (Cons row tbl)
  obtain tag filename where row: "row = (tag, filename)"
    by (cases row)
  show ?case
  proof (cases "fs (candidate_path fs iconset_dir tag filename)")
    case None
    with Cons.prems have "collect_blocks fs iconset_dir tbl data_blocks
        (out @ [warning filename tag]) = (Inr bs, out')"
      by (simp add: row path_exists_def)
    from Cons.IH [OF this] show ?thesis
      using None by (simp add: row)
  next
    case (Some n)
    show ?thesis
    proof (cases n)
      case Dir
      with Some Cons.prems show ?thesis
        by (simp add: row path_exists_def read_file_def)
    next
      case (File img_data)
      with Some Cons.prems obtain block
        where e: "encode_block tag img_data = Inr block"
          and c: "collect_blocks fs iconset_dir tbl (data_blocks @ [block]) out = (Inr bs, out')"
        by (auto simp: row path_exists_def read_file_def split: sum.splits)
      from Cons.IH [OF c] obtain new
        where "encode_blocks (resolved_entries fs iconset_dir tbl) = Inr new"
          and "bs = (data_blocks @ [block]) @ new"
        by blast
      then show ?thesis
        using Some File e by (simp add: row)
    qed
  qed
qed

lemma collect_blocks_files:
  "collect_blocks fs iconset_dir tbl data_blocks out = (Inr bs, out') \<Longrightarrow>
   (tag, filename) \<in> set tbl \<Longrightarrow>
   fs (candidate_path fs iconset_dir tag filename) \<noteq> Some Dir"
proof (induction tbl arbitrary: data_blocks out)
  case Nil
  then show ?case by simp
next
  case (Cons row tbl)
  obtain t f where row: "row = (t, f)"
    by (cases row)
  have here: "fs (candidate_path fs iconset_dir t f) \<noteq> Some Dir"
    using Cons.prems(1) by (auto simp: row path_exists_def read_file_def)
  have "\<exists>d o'. collect_blocks fs iconset_dir tbl d o' = (Inr bs, out')"
    using Cons.prems(1)
    by (auto simp: row Let_def split: if_splits sum.splits)
  then obtain d o' where "collect_blocks fs iconset_dir tbl d o' = (Inr bs, out')"
    by blast
  from Cons.IH [OF this] Cons.prems(2) here show ?case
    by (auto simp: row)
qed

lemma collect_blocks_nothing:
  "\<forall>(tag, filename) \<in> set tbl. \<not> path_exists fs (candidate_path fs iconset_dir tag filename) \<Longrightarrow>
   collect_blocks fs iconset_dir tbl data_blocks out =
     (Inr data_blocks, out @ map (\<lambda>(tag, filename). warning filename tag) tbl)"
  by (induction tbl arbitrary: out) auto

lemma collect_blocks_missing:
  assumes "\<forall>(tag, filename) \<in> set types. \<not> path_exists fs (path_join iconset_dir filename)"
  shows "collect_blocks fs iconset_dir types [] [] =
           (Inr [], map (\<lambda>(tag, filename). warning filename tag) types)"
proof -
  have "\<forall>(tag, filename) \<in> set types.
      \<not> path_exists fs (candidate_path fs iconset_dir tag filename)"
    using assms by (auto simp: candidate_path_types)
  from collect_blocks_nothing [OF this, of "[]" "[]"] show ?thesis
    by simp
qed

lemma collect_no_fallback_eq:
  "set tbl \<subseteq> set types \<Longrightarrow>
   collect_blocks fs iconset_dir tbl data_blocks out =
   collect_blocks_no_fallback fs iconset_dir tbl data_blocks out"
proof (induction tbl arbitrary: data_blocks out)
  case Nil
  show ?case by simp
next
  case (Cons row tbl)
  obtain tag filename where row: "row = (tag, filename)"
    by (cases row)
  have m: "(tag, filename) \<in> set types"
    using Cons.prems by (simp add: row)
  have ih: "\<And>d o'. collect_blocks fs iconset_dir tbl d o' =
      collect_blocks_no_fallback fs iconset_dir tbl d o'"
    using Cons.prems by (intro Cons.IH) simp
  show ?case
    by (auto simp: row candidate_path_types [OF m] ih Let_def split: sum.splits)
qed

lemma resolved_entries_tags:
  "map fst (resolved_entries fs iconset_dir tbl) =
   map fst (filter (\<lambda>(tag, filename).
     \<exists>img_data. fs (candidate_path fs iconset_dir tag filename) = Some (File img_data)) tbl)"
  by (induction tbl) (auto split: option.splits node.splits)

lemma resolved_entries_mem:
  "(tag, img_data) \<in> set (resolved_entries fs iconset_dir tbl) \<longleftrightarrow>
   (\<exists>filename. (tag, filename) \<in> set tbl \<and>
      fs (candidate_path fs iconset_dir tag filename) = Some (File img_data))"
  by (induction tbl) (auto split: option.splits node.splits)

lemma resolved_entries_types_tag_length:
  "(tag, img_data) \<in> set (resolved_entries fs iconset_dir types) \<Longrightarrow> length tag = 4"
  by (auto simp: resolved_entries_mem dest: types_tag_length)

lemma encode_blocks_Inr:
  "encode_blocks entries = Inr blocks \<Longrightarrow>
   list_all2 (\<lambda>(tag, img_data) block. encode_block tag img_data = Inr block) entries blocks"
  by (induction entries arbitrary: blocks) (auto split: sum.splits)



lemma list_all2_left:
  assumes "list_all2 P xs ys" and "x \<in> set xs"
  obtains y where "y \<in> set ys" and "P x y"
proof -
  from assms(2) obtain i where i: "i < length xs" and x: "xs ! i = x"
    by (auto simp: in_set_conv_nth)
  have "P (xs ! i) (ys ! i)"
    using assms(1) i by (rule list_all2_nthD)
  moreover have "ys ! i \<in> set ys"
    using list_all2_lengthD [OF assms(1)] i by simp
  ultimately show thesis
    using x by (auto intro: that)
qed

lemma blocks_of_entries:
  assumes "list_all2 (\<lambda>(tag, img_data) block. encode_block tag img_data = Inr block) entries blocks"
    and "\<forall>(tag, img_data) \<in> set entries. length tag = 4"
  shows "map block_tag blocks = map fst entries"
    and "map block_payload blocks = map snd entries"
    and "map block_length blocks = map (\<lambda>(tag, img_data). length img_data + 8) entries"
    and "map length blocks = map block_length blocks"
  using assms
  by (induction entries blocks rule: list_all2_induct; clarsimp simp: encode_block_fields)+


lemma collect_blocks_types:
  assumes "collect_blocks fs iconset_dir types [] [] = (Inr data_blocks, out)"
  shows "list_all2 (\<lambda>(tag, img_data) block. encode_block tag img_data = Inr block)
           (resolved_entries fs iconset_dir types) data_blocks"
    and "encode_blocks (resolved_entries fs iconset_dir types) = Inr data_blocks"
proof -
  from collect_blocks_Inr [OF assms]
  show e: "encode_blocks (resolved_entries fs iconset_dir types) = Inr data_blocks"
    by simp
  then show "list_all2 (\<lambda>(tag, img_data) block. encode_block tag img_data = Inr block)
           (resolved_entries fs iconset_dir types) data_blocks"
    by (rule encode_blocks_Inr)
qed

lemma collect_blocks_types_fields:
  assumes "collect_blocks fs iconset_dir types [] [] = (Inr data_blocks, out)"
  shows "map block_tag data_blocks = map fst (resolved_entries fs iconset_dir types)"
    and "map block_payload data_blocks = map snd (resolved_entries fs iconset_dir types)"
    and "map block_length data_blocks =
           map (\<lambda>(tag, img_data). length img_data + 8) (resolved_entries fs iconset_dir types)"
    and "map length data_blocks = map block_length data_blocks"
proof -
  have a: "list_all2 (\<lambda>(tag, img_data) block. encode_block tag img_data = Inr block)
           (resolved_entries fs iconset_dir types) data_blocks"
    using assms by (rule collect_blocks_types)
  have b: "\<forall>(tag, img_data) \<in> set (resolved_entries fs iconset_dir types). length tag = 4"
    by (auto dest: resolved_entries_types_tag_length)
  show "map block_tag data_blocks = map fst (resolved_entries fs iconset_dir types)"
    using a b by (rule blocks_of_entries)
  show "map block_payload data_blocks = map snd (resolved_entries fs iconset_dir types)"
    using a b by (rule blocks_of_entries)
  show "map block_length data_blocks =
           map (\<lambda>(tag, img_data). length img_data + 8) (resolved_entries fs iconset_dir types)"
    using a b by (rule blocks_of_entries)
  show "map length data_blocks = map block_length data_blocks"
    using a b by (rule blocks_of_entries)
qed

lemma resolved_tags_types:
  assumes "collect_blocks fs iconset_dir types [] [] = (Inr data_blocks, out)"
  shows "map fst (resolved_entries fs iconset_dir types) =
         map fst (filter (\<lambda>(tag, filename). path_exists fs (path_join iconset_dir filename)) types)"
proof -
  have "filter (\<lambda>(tag, filename).
          \<exists>img_data. fs (candidate_path fs iconset_dir tag filename) = Some (File img_data)) types =
        filter (\<lambda>(tag, filename). path_exists fs (path_join iconset_dir filename)) types"
  proof (rule filter_cong [OF refl], clarify)
    fix tag filename
    assume m: "(tag, filename) \<in> set types"
    have "fs (candidate_path fs iconset_dir tag filename) \<noteq> Some Dir"
      using assms m by (rule collect_blocks_files)
    then show "(\<exists>img_data. fs (candidate_path fs iconset_dir tag filename) = Some (File img_data))
        \<longleftrightarrow> path_exists fs (path_join iconset_dir filename)"
      unfolding candidate_path_types [OF m] path_exists_def
      by (cases "fs (path_join iconset_dir filename)"; simp) (metis node.exhaust)
  qed
  then show ?thesis
    by (simp add: resolved_entries_tags)
qed

lemma block_of_file:
  assumes c: "collect_blocks fs iconset_dir types [] [] = (Inr data_blocks, out)"
    and m: "(tag, filename) \<in> set types"
    and f: "fs (path_join iconset_dir filename) = Some (File img_data)"
  obtains block where "block \<in> set data_blocks" and "encode_block tag img_data = Inr block"
proof -
  have "(tag, img_data) \<in> set (resolved_entries fs iconset_dir types)"
    using m f by (auto simp: resolved_entries_mem candidate_path_types)
  with collect_blocks_types(1) [OF c] obtain block
    where "block \<in> set data_blocks"
      and "(case (tag, img_data) of (t, d) \<Rightarrow> \<lambda>b. encode_block t d = Inr b) block"
    by (rule list_all2_left)
  then show thesis
    by (auto intro: that)
qed

subsection \<open>Writing the container\<close>

lemma write_blocks_concat: "write_blocks written blocks = written @ concat blocks"
  by (induction blocks arbitrary: written) (simp_all add: f_write_def)

lemma open_wb_Inr: "open_wb fs path = Inr fs1 \<Longrightarrow> fs1 = fs(path \<mapsto> File [])"
  by (auto simp: open_wb_def split: option.splits node.splits)

lemma write_container_Returned:
  assumes "outcome (write_container fs output_file data_blocks out) = Returned"
  obtains size_field where "pack_I (sum_list (map length data_blocks) + 8) = Inr size_field"
    and "final_fs (write_container fs output_file data_blocks out) =
           fs(output_file \<mapsto> File (''icns'' @ size_field @ concat data_blocks))"
    and "fs_trace (write_container fs output_file data_blocks out) =
           [fs, fs(output_file \<mapsto> File []),
            fs(output_file \<mapsto> File (''icns'' @ size_field @ concat data_blocks))]"
proof -
  from assms obtain fs1 size_field
    where o: "open_wb fs output_file = Inr fs1"
      and p: "pack_I (sum_list (map length data_blocks) + 8) = Inr size_field"
    by (auto simp: write_container_def Let_def split: sum.splits)
  have fs1: "fs1 = fs(output_file \<mapsto> File [])"
    using o by (rule open_wb_Inr)
  have t: "fs_trace (write_container fs output_file data_blocks out) =
      [fs, fs(output_file \<mapsto> File []),
       fs(output_file \<mapsto> File (''icns'' @ size_field @ concat data_blocks))]"
    using o p by (simp add: write_container_def fs1 close_wb_def f_write_def write_blocks_concat)
  have f: "final_fs (write_container fs output_file data_blocks out) =
      fs(output_file \<mapsto> File (''icns'' @ size_field @ concat data_blocks))"
    unfolding final_fs_def t by simp
  from p f t show thesis
    by (rule that)
qed

lemma write_container_other:
  assumes "s \<in> set (fs_trace (write_container fs output_file data_blocks out))"
    and "p \<noteq> output_file"
  shows "s p = fs p"
proof (cases "open_wb fs output_file")
  case (Inl e)
  with assms show ?thesis
    by (simp add: write_container_def)
next
  case (Inr fs1)
  then have fs1: "fs1 = fs(output_file \<mapsto> File [])"
    by (rule open_wb_Inr)
  show ?thesis
  proof (cases "pack_I (sum_list (map length data_blocks) + 8)")
    case (Inl e)
    with assms Inr show ?thesis
      by (auto simp: write_container_def fs1)
  next
    case (Inr size_field)
    with assms \<open>open_wb fs output_file = Inr fs1\<close> show ?thesis
      by (auto simp: write_container_def fs1 close_wb_def)
  qed
qed

lemma create_icns_Returned:
  assumes "outcome (create_icns fs iconset_dir output_file) = Returned"
  obtains data_blocks out size_field
  where "collect_blocks fs iconset_dir types [] [] = (Inr data_blocks, out)"
    and "data_blocks \<noteq> []"
    and "pack_I (sum_list (map length data_blocks) + 8) = Inr size_field"
    and "final_fs (create_icns fs iconset_dir output_file) =
           fs(output_file \<mapsto> File (''icns'' @ size_field @ concat data_blocks))"
    and "fs_trace (create_icns fs iconset_dir output_file) =
           [fs, fs(output_file \<mapsto> File []),
            fs(output_file \<mapsto> File (''icns'' @ size_field @ concat data_blocks))]"
proof -
  obtain res out where c: "collect_blocks fs iconset_dir types [] [] = (res, out)"
    by (cases "collect_blocks fs iconset_dir types [] []")
  from assms c obtain data_blocks where r: "res = Inr data_blocks"
    by (cases res) (simp_all add: create_icns_def)
  from assms c r have ne: "data_blocks \<noteq> []"
    by (auto simp: create_icns_def)
  then have eq: "create_icns fs iconset_dir output_file =
      write_container fs output_file data_blocks out"
    using c r by (simp add: create_icns_def)
  from assms have "outcome (write_container fs output_file data_blocks out) = Returned"
    by (simp add: eq)
  then obtain size_field
    where "pack_I (sum_list (map length data_blocks) + 8) = Inr size_field"
      and "final_fs (write_container fs output_file data_blocks out) =
           fs(output_file \<mapsto> File (''icns'' @ size_field @ concat data_blocks))"
      and "fs_trace (write_container fs output_file data_blocks out) =
           [fs, fs(output_file \<mapsto> File []),
            fs(output_file \<mapsto> File (''icns'' @ size_field @ concat data_blocks))]"
    by (rule write_container_Returned)
  with c r ne show thesis
    unfolding eq [symmetric] by (intro that) simp_all
qed

lemma create_icns_trace_cases:
  obtains "fs_trace (create_icns fs iconset_dir output_file) = [fs]"
      and "outcome (create_icns fs iconset_dir output_file) \<noteq> Returned"
  | data_blocks out where "data_blocks \<noteq> []"
      and "create_icns fs iconset_dir output_file =
             write_container fs output_file data_blocks out"
proof (cases "collect_blocks fs iconset_dir types [] []")
  case (Pair res out)
  show thesis
  proof (cases res)
    case (Inl e)
    with Pair show thesis
      by (intro that(1)) (simp_all add: create_icns_def)
  next
    case (Inr data_blocks)
    show thesis
    proof (cases "data_blocks = []")
      case True
      with Pair Inr show thesis
        by (intro that(1)) (simp_all add: create_icns_def)
    next
      case False
      with Pair Inr show thesis
        by (intro that(2) [of data_blocks out]) (simp_all add: create_icns_def)
    qed
  qed
qed

lemma total_length_container:
  "length magic = 4 \<Longrightarrow> length size_field = 4 \<Longrightarrow>
   total_length (magic @ size_field @ rest) = be_value size_field"
  by (simp add: total_length_def)

lemma take_8_container:
  "length magic = 4 \<Longrightarrow> length size_field = 4 \<Longrightarrow>
   take 8 (magic @ size_field @ rest) = magic @ size_field"
  by simp

subsection \<open>Evaluating a run\<close>

lemmas run_defs = create_icns_def types_def candidate_path_def path_join_def path_exists_def
  read_file_def encode_block_def pack_I_def write_container_def open_wb_def final_fs_def
  f_write_def close_wb_def warning_def char_of_eq_iff

lemmas field_defs = total_length_def block_length_def block_tag_def block_payload_def be_value_def

subsection \<open>Reading what was packed\<close>








subsection \<open>When a run returns\<close>




section \<open>The claims\<close>

text \<open>
  C1. Every block that the loop of \<open>create_icns\<close> emits carries, in its four bytes after
  the tag, the length of its payload plus 8, which is the length of the whole block; its tag
  and payload are those of an entry of the directory.
\<close>

theorem block_length_field:
  assumes "collect_blocks fs iconset_dir types [] [] = (Inr data_blocks, out)"
    and "block \<in> set data_blocks"
  shows "block_length block = length (block_payload block) + 8 \<and>
         length block = block_length block \<and>
         (block_tag block, block_payload block) \<in> set (resolved_entries fs iconset_dir types)"
proof -
  let ?entries = "resolved_entries fs iconset_dir types"
  have a: "list_all2 (\<lambda>(tag, img_data) block. encode_block tag img_data = Inr block)
      ?entries data_blocks"
    using assms(1) by (rule collect_blocks_types)
  from assms(2) obtain i where i: "i < length data_blocks" and b: "data_blocks ! i = block"
    by (auto simp: in_set_conv_nth)
  obtain tag img_data where e: "?entries ! i = (tag, img_data)"
    by (cases "?entries ! i")
  have len: "length ?entries = length data_blocks"
    using a by (rule list_all2_lengthD)
  have m: "(tag, img_data) \<in> set ?entries"
    using i len e by (metis nth_mem)
  have enc: "encode_block tag img_data = Inr block"
    using list_all2_nthD2 [OF a i] by (simp add: e b)
  have t: "length tag = 4"
    using m by (rule resolved_entries_types_tag_length)
  show ?thesis
    using m by (simp add: encode_block_fields [OF enc t])
qed

theorem block_length_field_witness:
  "collect_blocks fs_one ''d'' types [] [] =
     (Inr [''icp4'' @ [CHR 0x00, CHR 0x00, CHR 0x00, CHR 0x12] @ ''0123456789''],
      map (\<lambda>(tag, filename). warning filename tag) (tl types)) \<and>
   block_length (''icp4'' @ [CHR 0x00, CHR 0x00, CHR 0x00, CHR 0x12] @ ''0123456789'') =
     length (block_payload (''icp4'' @ [CHR 0x00, CHR 0x00, CHR 0x00, CHR 0x12] @ ''0123456789'')) + 8"
proof -
  have h: "collect_blocks fs_one ''d'' types [] [] =
     (Inr [''icp4'' @ [CHR 0x00, CHR 0x00, CHR 0x00, CHR 0x12] @ ''0123456789''],
      map (\<lambda>(tag, filename). warning filename tag) (tl types))"
    by (simp add: fs_one_def run_defs)
  from block_length_field [OF h, of "''icp4'' @ [CHR 0x00, CHR 0x00, CHR 0x00, CHR 0x12] @ ''0123456789''"] h
  show ?thesis by simp
qed

text \<open>
  C2 (as amended). When \<open>create_icns\<close> returns, the output file is the eight header
  bytes followed by the blocks; the \<open>total_length\<close> field of the header equals the sum
  of the length fields of the blocks plus 8, and that is the length of the whole file (the
  size "includes header", as line 44 says), not the length of the file minus 8.
\<close>

theorem total_length_is_file_length:
  assumes "outcome (create_icns fs iconset_dir output_file) = Returned"
  shows "\<exists>data_blocks content.
           fst (collect_blocks fs iconset_dir types [] []) = Inr data_blocks \<and>
           final_fs (create_icns fs iconset_dir output_file) output_file = Some (File content) \<and>
           content = take 8 content @ concat data_blocks \<and>
           total_length content = sum_list (map block_length data_blocks) + 8 \<and>
           total_length content = length content"
proof -
  from assms obtain data_blocks out size_field
    where c: "collect_blocks fs iconset_dir types [] [] = (Inr data_blocks, out)"
      and p: "pack_I (sum_list (map length data_blocks) + 8) = Inr size_field"
      and f: "final_fs (create_icns fs iconset_dir output_file) =
           fs(output_file \<mapsto> File (''icns'' @ size_field @ concat data_blocks))"
    by (rule create_icns_Returned)
  let ?content = "''icns'' @ size_field @ concat data_blocks"
  have l: "length size_field = 4"
    using p by (rule length_pack_I)
  have t: "total_length ?content = sum_list (map length data_blocks) + 8"
    using be_value_pack_I [OF p] l total_length_container [of "''icns''" size_field]
    by simp
  have m: "map length data_blocks = map block_length data_blocks"
    using c by (rule collect_blocks_types_fields)
  have len: "length ?content = sum_list (map length data_blocks) + 8"
    using l by (simp add: length_concat)
  have A: "total_length ?content = length ?content"
    unfolding t len ..
  have B: "total_length ?content = sum_list (map block_length data_blocks) + 8"
    unfolding t m ..
  have C: "?content = take 8 ?content @ concat data_blocks"
    using l take_8_container [of "''icns''" size_field "concat data_blocks"] by simp
  have c': "fst (collect_blocks fs iconset_dir types [] []) = Inr data_blocks"
    using c by simp
  have f': "final_fs (create_icns fs iconset_dir output_file) output_file = Some (File ?content)"
    using f by simp
  from c' f' C B A show ?thesis
    by blast
qed

theorem total_length_is_file_length_witness:
  "outcome (create_icns fs_one ''d'' ''out.icns'') = Returned \<and>
   (\<exists>data_blocks content.
      fst (collect_blocks fs_one ''d'' types [] []) = Inr data_blocks \<and>
      final_fs (create_icns fs_one ''d'' ''out.icns'') ''out.icns'' = Some (File content) \<and>
      content = take 8 content @ concat data_blocks \<and>
      total_length content = sum_list (map block_length data_blocks) + 8 \<and>
      total_length content = length content)"
proof -
  have h: "outcome (create_icns fs_one ''d'' ''out.icns'') = Returned"
    by (simp add: fs_one_def run_defs)
  from total_length_is_file_length [OF h] h show ?thesis
    by simp
qed

text \<open>
  In the directory with one file of ten bytes the container is 26 bytes long and its
  \<open>total_length\<close> field is 26, whereas the length of the file minus 8 is 18.
\<close>

theorem total_length_minus_8_counterexample:
  "outcome (create_icns fs_one ''d'' ''out.icns'') = Returned \<and>
   final_fs (create_icns fs_one ''d'' ''out.icns'') ''out.icns'' =
     Some (File (''icns'' @ [CHR 0x00, CHR 0x00, CHR 0x00, CHR 0x1A] @
                 ''icp4'' @ [CHR 0x00, CHR 0x00, CHR 0x00, CHR 0x12] @ ''0123456789'')) \<and>
   total_length (''icns'' @ [CHR 0x00, CHR 0x00, CHR 0x00, CHR 0x1A] @
                 ''icp4'' @ [CHR 0x00, CHR 0x00, CHR 0x00, CHR 0x12] @ ''0123456789'') = 26 \<and>
   length (''icns'' @ [CHR 0x00, CHR 0x00, CHR 0x00, CHR 0x1A] @
                 ''icp4'' @ [CHR 0x00, CHR 0x00, CHR 0x00, CHR 0x12] @ ''0123456789'') - 8 = 18 \<and>
   total_length (''icns'' @ [CHR 0x00, CHR 0x00, CHR 0x00, CHR 0x1A] @
                 ''icp4'' @ [CHR 0x00, CHR 0x00, CHR 0x00, CHR 0x12] @ ''0123456789'') \<noteq>
   length (''icns'' @ [CHR 0x00, CHR 0x00, CHR 0x00, CHR 0x1A] @
                 ''icp4'' @ [CHR 0x00, CHR 0x00, CHR 0x00, CHR 0x12] @ ''0123456789'') - 8"
  by (simp add: fs_one_def run_defs field_defs)




text \<open>
  C4 (as amended). \<open>create_icns\<close> writes the container in place: it opens the output
  path itself for writing, which empties the file, and writes the header and then each
  block to it. No other path is created or changed in any state of the run, so there is
  no temporary file and no rename. A run that returns has passed through a state in which
  the output file is empty, and leaves at the output path the complete container: the
  header with the total size, followed by the blocks of the loop in their order. A run
  that exits with code 1 has not touched the filesystem.
\<close>

theorem output_written_in_place:
  "list_all (\<lambda>s. \<forall>p. p \<noteq> output_file \<longrightarrow> s p = fs p)
     (fs_trace (create_icns fs iconset_dir output_file)) \<and>
   (outcome (create_icns fs iconset_dir output_file) = Returned \<longrightarrow>
      (\<exists>data_blocks size_field.
         fst (collect_blocks fs iconset_dir types [] []) = Inr data_blocks \<and>
         pack_I (sum_list (map length data_blocks) + 8) = Inr size_field \<and>
         fs_trace (create_icns fs iconset_dir output_file) =
           [fs, fs(output_file \<mapsto> File []),
            fs(output_file \<mapsto> File (''icns'' @ size_field @ concat data_blocks))])) \<and>
   (outcome (create_icns fs iconset_dir output_file) = Exit 1 \<longrightarrow>
      fs_trace (create_icns fs iconset_dir output_file) = [fs])"
proof (intro conjI impI)
  show "list_all (\<lambda>s. \<forall>p. p \<noteq> output_file \<longrightarrow> s p = fs p)
     (fs_trace (create_icns fs iconset_dir output_file))"
  proof (cases rule: create_icns_trace_cases [of fs iconset_dir output_file])
    case 1
    then show ?thesis by simp
  next
    case (2 data_blocks out)
    then show ?thesis
      by (auto simp: list_all_iff dest: write_container_other)
  qed
next
  assume r: "outcome (create_icns fs iconset_dir output_file) = Returned"
  then obtain data_blocks out size_field
    where c: "collect_blocks fs iconset_dir types [] [] = (Inr data_blocks, out)"
      and p: "pack_I (sum_list (map length data_blocks) + 8) = Inr size_field"
      and t: "fs_trace (create_icns fs iconset_dir output_file) =
           [fs, fs(output_file \<mapsto> File []),
            fs(output_file \<mapsto> File (''icns'' @ size_field @ concat data_blocks))]"
    by (rule create_icns_Returned)
  have c': "fst (collect_blocks fs iconset_dir types [] []) = Inr data_blocks"
    by (simp add: c)
  show "\<exists>data_blocks size_field.
      fst (collect_blocks fs iconset_dir types [] []) = Inr data_blocks \<and>
      pack_I (sum_list (map length data_blocks) + 8) = Inr size_field \<and>
      fs_trace (create_icns fs iconset_dir output_file) =
        [fs, fs(output_file \<mapsto> File []),
         fs(output_file \<mapsto> File (''icns'' @ size_field @ concat data_blocks))]"
    by (intro exI [of _ data_blocks] exI [of _ size_field] conjI) (rule c' p t)+
next
  assume e: "outcome (create_icns fs iconset_dir output_file) = Exit 1"
  show "fs_trace (create_icns fs iconset_dir output_file) = [fs]"
  proof (cases rule: create_icns_trace_cases [of fs iconset_dir output_file])
    case 1
    then show ?thesis by simp
  next
    case (2 data_blocks out)
    with e show ?thesis
      by (auto simp: write_container_def Let_def split: sum.splits)
  qed
qed

theorem output_written_in_place_witness:
  "outcome (create_icns fs_prev ''d'' ''out.icns'') = Returned \<and>
   fs_trace (create_icns fs_prev ''d'' ''out.icns'') =
     [fs_prev, fs_prev(''out.icns'' \<mapsto> File []),
      fs_prev(''out.icns'' \<mapsto> File (''icns'' @ [CHR 0x00, CHR 0x00, CHR 0x00, CHR 0x1A] @
        ''icp4'' @ [CHR 0x00, CHR 0x00, CHR 0x00, CHR 0x12] @ ''0123456789''))] \<and>
   list_all (\<lambda>s. s ''d/icon_16x16.png'' = Some (File ''0123456789''))
     (fs_trace (create_icns fs_prev ''d'' ''out.icns'')) \<and>
   outcome (create_icns fs_no_icons ''d'' ''out.icns'') = Exit 1 \<and>
   fs_trace (create_icns fs_no_icons ''d'' ''out.icns'') = [fs_no_icons]"
proof -
  have r: "outcome (create_icns fs_prev ''d'' ''out.icns'') = Returned"
    by (simp add: fs_prev_def run_defs)
  have e: "outcome (create_icns fs_no_icons ''d'' ''out.icns'') = Exit 1"
    by (simp add: fs_no_icons_def run_defs)
  have f: "fs_prev ''d/icon_16x16.png'' = Some (File ''0123456789'')"
    by (simp add: fs_prev_def)
  have l: "fst (collect_blocks fs_prev ''d'' types [] []) =
      Inr [''icp4'' @ [CHR 0x00, CHR 0x00, CHR 0x00, CHR 0x12] @ ''0123456789'']"
    by (simp add: fs_prev_def run_defs)
  from output_written_in_place [of "''out.icns''" fs_prev "''d''"] r
  obtain data_blocks size_field
    where c: "fst (collect_blocks fs_prev ''d'' types [] []) = Inr data_blocks"
      and p: "pack_I (sum_list (map length data_blocks) + 8) = Inr size_field"
      and t: "fs_trace (create_icns fs_prev ''d'' ''out.icns'') =
           [fs_prev, fs_prev(''out.icns'' \<mapsto> File []),
            fs_prev(''out.icns'' \<mapsto> File (''icns'' @ size_field @ concat data_blocks))]"
      and b: "list_all (\<lambda>s. \<forall>p. p \<noteq> ''out.icns'' \<longrightarrow> s p = fs_prev p)
           (fs_trace (create_icns fs_prev ''d'' ''out.icns''))"
    by blast
  have d: "data_blocks = [''icp4'' @ [CHR 0x00, CHR 0x00, CHR 0x00, CHR 0x12] @ ''0123456789'']"
    using c l by simp
  have "pack_I (sum_list (map length data_blocks) + 8) = Inr [CHR 0x00, CHR 0x00, CHR 0x00, CHR 0x1A]"
    unfolding d by (simp add: pack_I_def char_of_eq_iff)
  with p have s: "size_field = [CHR 0x00, CHR 0x00, CHR 0x00, CHR 0x1A]"
    by simp
  have a: "fs_trace (create_icns fs_prev ''d'' ''out.icns'') =
     [fs_prev, fs_prev(''out.icns'' \<mapsto> File []),
      fs_prev(''out.icns'' \<mapsto> File (''icns'' @ [CHR 0x00, CHR 0x00, CHR 0x00, CHR 0x1A] @
        ''icp4'' @ [CHR 0x00, CHR 0x00, CHR 0x00, CHR 0x12] @ ''0123456789''))]"
    using t unfolding d s by simp
  have c: "list_all (\<lambda>s. s ''d/icon_16x16.png'' = Some (File ''0123456789''))
     (fs_trace (create_icns fs_prev ''d'' ''out.icns''))"
    unfolding list_all_iff
  proof
    fix s
    assume "s \<in> set (fs_trace (create_icns fs_prev ''d'' ''out.icns''))"
    with b have "\<forall>p. p \<noteq> ''out.icns'' \<longrightarrow> s p = fs_prev p"
      by (simp add: list_all_iff)
    then have "''d/icon_16x16.png'' \<noteq> ''out.icns'' \<longrightarrow>
        s ''d/icon_16x16.png'' = fs_prev ''d/icon_16x16.png''"
      by (rule spec)
    then show "s ''d/icon_16x16.png'' = Some (File ''0123456789'')"
      by (simp add: f)
  qed
  from output_written_in_place [of "''out.icns''" fs_no_icons "''d''"] e
  have d: "fs_trace (create_icns fs_no_icons ''d'' ''out.icns'') = [fs_no_icons]"
    by blast
  from r a c e d show ?thesis
    by (intro conjI)
qed

text \<open>
  A run over the output file of an earlier run: once the output is opened the file is
  empty, so the earlier content is gone before a byte of the new container is written. A
  run can also end there: when the size of the container does not fit its 32-bit field,
  \<open>struct.pack\<close> raises with the output already opened, and the run fails with the
  earlier output emptied.
\<close>

theorem previous_output_truncated_counterexample:
  "fs_prev ''out.icns'' = Some (File ''previous'') \<and>
   (fs_trace (create_icns fs_prev ''d'' ''out.icns'') ! 1) ''out.icns'' = Some (File []) \<and>
   \<not> never_partial (create_icns fs_prev ''d'' ''out.icns'') ''out.icns'' \<and>
   fs_prev_huge ''out.icns'' = Some (File ''previous'') \<and>
   outcome (create_icns fs_prev_huge ''d'' ''out.icns'') = Raised (StructError 4294967296) \<and>
   final_fs (create_icns fs_prev_huge ''d'' ''out.icns'') ''out.icns'' = Some (File []) \<and>
   \<not> never_partial (create_icns fs_prev_huge ''d'' ''out.icns'') ''out.icns''"
proof -
  have a: "fs_prev ''out.icns'' = Some (File ''previous'') \<and>
      (fs_trace (create_icns fs_prev ''d'' ''out.icns'') ! 1) ''out.icns'' = Some (File []) \<and>
      \<not> never_partial (create_icns fs_prev ''d'' ''out.icns'') ''out.icns''"
    by (simp add: fs_prev_def run_defs never_partial_def)
  have b: "fs_prev_huge ''out.icns'' = Some (File ''previous'') \<and>
      outcome (create_icns fs_prev_huge ''d'' ''out.icns'') = Raised (StructError 4294967296) \<and>
      final_fs (create_icns fs_prev_huge ''d'' ''out.icns'') ''out.icns'' = Some (File []) \<and>
      \<not> never_partial (create_icns fs_prev_huge ''d'' ''out.icns'') ''out.icns''"
    by (simp add: fs_prev_huge_def run_defs never_partial_def)
  from a b show ?thesis
    by simp
qed

text \<open>
  C5 (as amended). \<open>create_icns\<close> does not look at the length of what it reads. A
  candidate file that exists and is empty contributes a block like any other: the tag
  followed by the length field 8 and no payload. Nothing is skipped and no error is raised
  for it.
\<close>

theorem zero_length_file_block:
  assumes "(tag, filename) \<in> set types"
    and "fs (path_join iconset_dir filename) = Some (File [])"
    and "collect_blocks fs iconset_dir types [] [] = (Inr data_blocks, out)"
  shows "tag @ [CHR 0x00, CHR 0x00, CHR 0x00, CHR 0x08] \<in> set data_blocks"
proof -
  from assms(3) assms(1) assms(2) obtain block
    where b: "block \<in> set data_blocks" and e: "encode_block tag [] = Inr block"
    by (rule block_of_file)
  have "encode_block tag [] = Inr (tag @ [CHR 0x00, CHR 0x00, CHR 0x00, CHR 0x08])"
    by (simp add: encode_block_def pack_I_def char_of_eq_iff)
  with e b show ?thesis
    by simp
qed

theorem zero_length_file_block_witness:
  "collect_blocks fs_zero ''d'' types [] [] =
     (Inr [''icp5'' @ [CHR 0x00, CHR 0x00, CHR 0x00, CHR 0x08]],
      map (\<lambda>(tag, filename). warning filename tag)
        ((''icp4'', ''icon_16x16.png'') # drop 2 types)) \<and>
   ''icp5'' @ [CHR 0x00, CHR 0x00, CHR 0x00, CHR 0x08] \<in>
     set [''icp5'' @ [CHR 0x00, CHR 0x00, CHR 0x00, CHR 0x08]]"
proof -
  have m: "(''icp5'', ''icon_32x32.png'') \<in> set types"
    by (simp add: types_def)
  have f: "fs_zero (path_join ''d'' ''icon_32x32.png'') = Some (File [])"
    by (simp add: fs_zero_def path_join_def)
  have c: "collect_blocks fs_zero ''d'' types [] [] =
     (Inr [''icp5'' @ [CHR 0x00, CHR 0x00, CHR 0x00, CHR 0x08]],
      map (\<lambda>(tag, filename). warning filename tag)
        ((''icp4'', ''icon_16x16.png'') # drop 2 types))"
    by (simp add: fs_zero_def run_defs)
  from zero_length_file_block [OF m f c] c show ?thesis
    by (intro conjI)
qed

text \<open>
  A directory whose only candidate is an empty \<open>icon_32x32.png\<close>: the run returns, and
  the container holds the block of \<open>icp5\<close> with length field 8.
\<close>

theorem zero_length_file_counterexample:
  "fs_zero (path_join ''d'' ''icon_32x32.png'') = Some (File []) \<and>
   outcome (create_icns fs_zero ''d'' ''out.icns'') = Returned \<and>
   final_fs (create_icns fs_zero ''d'' ''out.icns'') ''out.icns'' =
     Some (File (''icns'' @ [CHR 0x00, CHR 0x00, CHR 0x00, CHR 0x10] @
                 ''icp5'' @ [CHR 0x00, CHR 0x00, CHR 0x00, CHR 0x08]))"
  by (simp add: fs_zero_def run_defs)

text \<open>
  C6 (as amended). \<open>create_icns\<close> has no check of the source directory. When the
  directory does not exist, none of the eleven paths under it exists: the run tries every
  tag, prints one warning for each in table order, then prints "Error: No icons found to
  pack!" and exits with code 1, the same exit as for a directory without icons.
\<close>

theorem missing_directory_warnings:
  assumes "\<forall>(tag, filename) \<in> set types. \<not> path_exists fs (path_join iconset_dir filename)"
  shows "stdout (create_icns fs iconset_dir output_file) =
           map (\<lambda>(tag, filename). warning filename tag) types @ [''Error: No icons found to pack!''] \<and>
         outcome (create_icns fs iconset_dir output_file) = Exit 1"
  using collect_blocks_missing [OF assms] by (simp add: create_icns_def)

theorem missing_directory_warnings_witness:
  "stdout (create_icns Map.empty ''/nonexistent'' ''out.icns'') =
     map (\<lambda>(tag, filename). warning filename tag) types @ [''Error: No icons found to pack!''] \<and>
   outcome (create_icns Map.empty ''/nonexistent'' ''out.icns'') = Exit 1"
proof -
  have h: "\<forall>(tag, filename) \<in> set types. \<not> path_exists Map.empty (path_join ''/nonexistent'' filename)"
    by (simp add: path_exists_def)
  from missing_directory_warnings [OF h] show ?thesis .
qed

text \<open>
  The run on a directory that does not exist: eleven tags are tried and skipped before the
  failure is reported, and the failure reported is that no icon was found.
\<close>

theorem missing_directory_counterexample:
  "stdout (create_icns Map.empty ''/nonexistent'' ''out.icns'') =
     [''Warning: icon_16x16.png not found, skipping icp4'',
      ''Warning: icon_32x32.png not found, skipping icp5'',
      ''Warning: icon_64x64.png not found, skipping icp6'',
      ''Warning: icon_128x128.png not found, skipping ic07'',
      ''Warning: icon_256x256.png not found, skipping ic08'',
      ''Warning: icon_512x512.png not found, skipping ic09'',
      ''Warning: icon_1024x1024.png not found, skipping ic10'',
      ''Warning: icon_16x16@2x.png not found, skipping ic11'',
      ''Warning: icon_32x32@2x.png not found, skipping ic12'',
      ''Warning: icon_128x128@2x.png not found, skipping ic13'',
      ''Warning: icon_256x256@2x.png not found, skipping ic14'',
      ''Error: No icons found to pack!''] \<and>
   outcome (create_icns Map.empty ''/nonexistent'' ''out.icns'') = Exit 1"
  by (simp add: run_defs)

text \<open>
  C7. When none of the eleven paths exists, no tag resolves: \<open>create_icns\<close> prints
  "Error: No icons found to pack!" and exits with code 1 before the output is opened. The
  filesystem is never touched: its only state is the one at entry, so no output file is
  created and one that is there keeps its content.
\<close>

theorem no_icons_exit_1:
  assumes "\<forall>(tag, filename) \<in> set types. \<not> path_exists fs (path_join iconset_dir filename)"
  shows "outcome (create_icns fs iconset_dir output_file) = Exit 1 \<and>
         fs_trace (create_icns fs iconset_dir output_file) = [fs] \<and>
         final_fs (create_icns fs iconset_dir output_file) = fs \<and>
         last (stdout (create_icns fs iconset_dir output_file)) = ''Error: No icons found to pack!''"
  using collect_blocks_missing [OF assms] by (simp add: create_icns_def final_fs_def)

theorem no_icons_exit_1_witness:
  "outcome (create_icns fs_no_icons ''d'' ''out.icns'') = Exit 1 \<and>
   fs_trace (create_icns fs_no_icons ''d'' ''out.icns'') = [fs_no_icons] \<and>
   final_fs (create_icns fs_no_icons ''d'' ''out.icns'') ''out.icns'' = Some (File ''previous'')"
proof -
  have h: "\<forall>(tag, filename) \<in> set types. \<not> path_exists fs_no_icons (path_join ''d'' filename)"
    by (simp add: fs_no_icons_def types_def path_join_def path_exists_def)
  from no_icons_exit_1 [OF h, of "''out.icns''"] show ?thesis
    by (simp add: fs_no_icons_def)
qed

text \<open>
  C9. When \<open>create_icns\<close> returns, the output file is the header followed by the
  blocks, each as long as its length field says, and the tags of the blocks are the tags of
  the table, in table order, of the rows whose file exists; no tag occurs twice.
\<close>

theorem blocks_in_table_order:
  assumes "outcome (create_icns fs iconset_dir output_file) = Returned"
  shows "\<exists>data_blocks size_field.
           final_fs (create_icns fs iconset_dir output_file) output_file =
             Some (File (''icns'' @ size_field @ concat data_blocks)) \<and>
           length size_field = 4 \<and>
           map length data_blocks = map block_length data_blocks \<and>
           map block_tag data_blocks =
             map fst (filter (\<lambda>(tag, filename). path_exists fs (path_join iconset_dir filename)) types) \<and>
           distinct (map block_tag data_blocks) \<and>
           map fst types = [''icp4'', ''icp5'', ''icp6'', ''ic07'', ''ic08'', ''ic09'',
             ''ic10'', ''ic11'', ''ic12'', ''ic13'', ''ic14'']"
proof -
  from assms obtain data_blocks out size_field
    where c: "collect_blocks fs iconset_dir types [] [] = (Inr data_blocks, out)"
      and p: "pack_I (sum_list (map length data_blocks) + 8) = Inr size_field"
      and f: "final_fs (create_icns fs iconset_dir output_file) =
           fs(output_file \<mapsto> File (''icns'' @ size_field @ concat data_blocks))"
    by (rule create_icns_Returned)
  have l: "length size_field = 4"
    using p by (rule length_pack_I)
  have m: "map length data_blocks = map block_length data_blocks"
    using c by (rule collect_blocks_types_fields)
  have t: "map block_tag data_blocks =
      map fst (filter (\<lambda>(tag, filename). path_exists fs (path_join iconset_dir filename)) types)"
    using collect_blocks_types_fields(1) [OF c] resolved_tags_types [OF c] by simp
  have d: "distinct (map block_tag data_blocks)"
    unfolding t using distinct_types_tags by (rule distinct_map_filter)
  have f': "final_fs (create_icns fs iconset_dir output_file) output_file =
      Some (File (''icns'' @ size_field @ concat data_blocks))"
    using f by simp
  show ?thesis
    by (intro exI [of _ data_blocks] exI [of _ size_field] conjI)
      (rule f' l m t d types_tags)+
qed

theorem blocks_in_table_order_witness:
  "outcome (create_icns fs_two ''d'' ''out.icns'') = Returned \<and>
   final_fs (create_icns fs_two ''d'' ''out.icns'') ''out.icns'' =
     Some (File (''icns'' @ [CHR 0x00, CHR 0x00, CHR 0x00, CHR 0x1D] @
       concat [''icp4'' @ [CHR 0x00, CHR 0x00, CHR 0x00, CHR 0x0B] @ ''xyz'',
               ''ic12'' @ [CHR 0x00, CHR 0x00, CHR 0x00, CHR 0x0A] @ ''ab''])) \<and>
   (\<exists>data_blocks size_field.
      final_fs (create_icns fs_two ''d'' ''out.icns'') ''out.icns'' =
        Some (File (''icns'' @ size_field @ concat data_blocks)) \<and>
      length size_field = 4 \<and>
      map length data_blocks = map block_length data_blocks \<and>
      map block_tag data_blocks = [''icp4'', ''ic12''] \<and>
      distinct (map block_tag data_blocks) \<and>
      map fst types = [''icp4'', ''icp5'', ''icp6'', ''ic07'', ''ic08'', ''ic09'',
        ''ic10'', ''ic11'', ''ic12'', ''ic13'', ''ic14''])"
proof -
  have h: "outcome (create_icns fs_two ''d'' ''out.icns'') = Returned"
    by (simp add: fs_two_def run_defs)
  have e: "final_fs (create_icns fs_two ''d'' ''out.icns'') ''out.icns'' =
     Some (File (''icns'' @ [CHR 0x00, CHR 0x00, CHR 0x00, CHR 0x1D] @
       concat [''icp4'' @ [CHR 0x00, CHR 0x00, CHR 0x00, CHR 0x0B] @ ''xyz'',
               ''ic12'' @ [CHR 0x00, CHR 0x00, CHR 0x00, CHR 0x0A] @ ''ab'']))"
    by (simp add: fs_two_def run_defs)
  have t: "map fst (filter (\<lambda>(tag, filename). path_exists fs_two (path_join ''d'' filename)) types) =
      [''icp4'', ''ic12'']"
    by (simp add: fs_two_def types_def path_join_def path_exists_def)
  from blocks_in_table_order [OF h] have "\<exists>data_blocks size_field.
      final_fs (create_icns fs_two ''d'' ''out.icns'') ''out.icns'' =
        Some (File (''icns'' @ size_field @ concat data_blocks)) \<and>
      length size_field = 4 \<and>
      map length data_blocks = map block_length data_blocks \<and>
      map block_tag data_blocks = [''icp4'', ''ic12''] \<and>
      distinct (map block_tag data_blocks) \<and>
      map fst types = [''icp4'', ''icp5'', ''icp6'', ''ic07'', ''ic08'', ''ic09'',
        ''ic10'', ''ic11'', ''ic12'', ''ic13'', ''ic14'']"
    unfolding t .
  with h e show ?thesis
    by (intro conjI)
qed

text \<open>
  C10. The paths that lines 27 and 28 assign for \<open>icp4\<close> and \<open>icp5\<close> are the
  canonical paths of these tags again, so the path tried for a tag is always its canonical
  one: for every filesystem, directory and output path the loop and the whole of
  \<open>create_icns\<close> give the same result as the resolver without the fallback statements.
\<close>

theorem fallback_is_no_op:
  "candidate_path fs iconset_dir ''icp4'' ''icon_16x16.png'' = path_join iconset_dir ''icon_16x16.png'' \<and>
   candidate_path fs iconset_dir ''icp5'' ''icon_32x32.png'' = path_join iconset_dir ''icon_32x32.png'' \<and>
   collect_blocks fs iconset_dir types [] [] = collect_blocks_no_fallback fs iconset_dir types [] [] \<and>
   create_icns fs iconset_dir output_file = create_icns_no_fallback fs iconset_dir output_file"
proof -
  have "collect_blocks fs iconset_dir types [] [] =
      collect_blocks_no_fallback fs iconset_dir types [] []"
    by (rule collect_no_fallback_eq) simp
  then show ?thesis
    by (simp add: create_icns_def create_icns_no_fallback_def candidate_path_def Let_def)
qed

end
